theory Spec2Isabelle
  imports Complex_Main "HOL-Library.AList" "HOL-Library.Monad_Syntax"
begin

section \<open>Python values\<close>

text \<open>
  The value of a Python number. A finite \<open>int\<close> or \<open>float\<close> is represented by its exact
  rational value (rounding of float arithmetic is not modelled); the three special floats
  are kept apart because the comparisons of \<open>add_score\<close> treat them differently.
\<close>

datatype num = Fin rat | PosInf | NegInf | NaN

text \<open>
  The objects that \<open>json.load\<close> can return, which are also the objects a score can be:
  \<open>None\<close>, \<open>bool\<close>, \<open>int\<close>, \<open>float\<close>, \<open>str\<close>, \<open>list\<close> and \<open>dict\<close> with \<open>str\<close>
  keys. A \<open>dict\<close> is an association list in insertion order.
\<close>

datatype pyval =
    PNone
  | PBool bool
  | PInt int
  | PFloat num
  | PStr string
  | PList "pyval list"
  | PDict "(string \<times> pyval) list"

text \<open>The exceptions that the modelled code can raise; all are subclasses of \<open>Exception\<close>.\<close>

datatype pyerr = KeyError string | TypeError | ValueError | AttributeError | OSError | JSONDecodeError
  | ZeroDivisionError

text \<open>\<open>isinstance(v, (int, float))\<close>; \<open>bool\<close> is a subclass of \<open>int\<close>.\<close>

fun is_number :: "pyval \<Rightarrow> bool" where
  "is_number (PBool b) = True"
| "is_number (PInt i) = True"
| "is_number (PFloat x) = True"
| "is_number v = False"

text \<open>The numeric value of a number object (\<open>True\<close> is 1, \<open>False\<close> is 0).\<close>

fun num_of :: "pyval \<Rightarrow> num option" where
  "num_of (PBool b) = Some (Fin (if b then 1 else 0))"
| "num_of (PInt i) = Some (Fin (of_int i))"
| "num_of (PFloat x) = Some x"
| "num_of v = None"

text \<open>\<open>a < b\<close> on numbers, as IEEE 754 and Python have it: every comparison with NaN is false.\<close>

fun num_less :: "num \<Rightarrow> num \<Rightarrow> bool" where
  "num_less NaN y = False"
| "num_less x NaN = False"
| "num_less (Fin a) (Fin b) = (a < b)"
| "num_less (Fin a) PosInf = True"
| "num_less NegInf (Fin b) = True"
| "num_less NegInf PosInf = True"
| "num_less x y = False"

text \<open>\<open>a <= b\<close> on numbers.\<close>

fun num_le :: "num \<Rightarrow> num \<Rightarrow> bool" where
  "num_le NaN y = False"
| "num_le x NaN = False"
| "num_le (Fin a) (Fin b) = (a \<le> b)"
| "num_le NegInf y = True"
| "num_le x PosInf = True"
| "num_le x y = False"

text \<open>
  \<open>a + b\<close> on numbers: exact on finite values, IEEE 754 on the special ones.
\<close>

fun num_add :: "num \<Rightarrow> num \<Rightarrow> num" where
  "num_add NaN y = NaN"
| "num_add x NaN = NaN"
| "num_add (Fin a) (Fin b) = Fin (a + b)"
| "num_add PosInf NegInf = NaN"
| "num_add NegInf PosInf = NaN"
| "num_add PosInf y = PosInf"
| "num_add x PosInf = PosInf"
| "num_add NegInf y = NegInf"
| "num_add x NegInf = NegInf"


text \<open>
  \<open>sum(values)\<close>: a left fold of \<open>+\<close> from the \<open>int\<close> 0. The accumulator is always a
  number, and a number plus \<open>None\<close>, a \<open>str\<close>, a \<open>list\<close> or a \<open>dict\<close> raises
  \<open>TypeError\<close>.
\<close>

fun sum_from :: "num \<Rightarrow> pyval list \<Rightarrow> pyerr + num" where
  "sum_from acc [] = Inr acc"
| "sum_from acc (v # vs) =
     (case num_of v of None \<Rightarrow> Inl TypeError | Some x \<Rightarrow> sum_from (num_add acc x) vs)"

definition py_sum :: "pyval list \<Rightarrow> pyerr + num" where
  "py_sum vs = sum_from (Fin 0) vs"




text \<open>\<open>d[key]\<close> for a \<open>str\<close> key: only a \<open>dict\<close> can be indexed by a \<open>str\<close>.\<close>

definition getitem :: "pyval \<Rightarrow> string \<Rightarrow> pyerr + pyval" where
  "getitem d k =
     (case d of
        PDict kvs \<Rightarrow> (case map_of kvs k of Some v \<Rightarrow> Inr v | None \<Rightarrow> Inl (KeyError k))
      | _ \<Rightarrow> Inl TypeError)"

text \<open>\<open>d.get(key, default)\<close>: only a \<open>dict\<close> has the method.\<close>

definition get_default :: "pyval \<Rightarrow> string \<Rightarrow> pyval \<Rightarrow> pyerr + pyval" where
  "get_default d k dflt =
     (case d of
        PDict kvs \<Rightarrow> Inr (case map_of kvs k of Some v \<Rightarrow> v | None \<Rightarrow> dflt)
      | _ \<Rightarrow> Inl AttributeError)"

section \<open>Timestamps\<close>

text \<open>
  A naive \<open>datetime.datetime\<close>, which is what \<open>datetime.datetime.now()\<close> returns.
  Python builds such an object only with fields in the ranges of \<open>valid_datetime\<close>.
\<close>

record datetime =
  year :: nat
  month :: nat
  day :: nat
  hour :: nat
  minute :: nat
  second :: nat
  microsecond :: nat

definition leap_year :: "nat \<Rightarrow> bool" where
  "leap_year y = (y mod 4 = 0 \<and> (y mod 100 \<noteq> 0 \<or> y mod 400 = 0))"

definition days_in_month :: "nat \<Rightarrow> nat \<Rightarrow> nat" where
  "days_in_month y m =
     (if m = 2 then (if leap_year y then 29 else 28)
      else if m = 4 \<or> m = 6 \<or> m = 9 \<or> m = 11 then 30 else 31)"

definition valid_datetime :: "datetime \<Rightarrow> bool" where
  "valid_datetime t =
     (1 \<le> year t \<and> year t \<le> 9999 \<and> 1 \<le> month t \<and> month t \<le> 12 \<and>
      1 \<le> day t \<and> day t \<le> days_in_month (year t) (month t) \<and>
      hour t < 24 \<and> minute t < 60 \<and> second t < 60 \<and> microsecond t < 1000000)"

definition digit_char :: "nat \<Rightarrow> char" where
  "digit_char d = ''0123456789'' ! (d mod 10)"

definition digit_of :: "char \<Rightarrow> nat option" where
  "digit_of c =
     map_of [(CHR ''0'', 0), (CHR ''1'', 1), (CHR ''2'', 2), (CHR ''3'', 3), (CHR ''4'', 4),
             (CHR ''5'', 5), (CHR ''6'', 6), (CHR ''7'', 7), (CHR ''8'', 8), (CHR ''9'', 9)] c"

text \<open>
  \<open>'%0kd' % n\<close> for \<open>n < 10 ^ k\<close>: the \<open>k\<close> decimal digits of \<open>n\<close>, the most
  significant first (\<open>digit_char\<close> writes the last digit of its argument).
\<close>

fun pad :: "nat \<Rightarrow> nat \<Rightarrow> string" where
  "pad 0 n = []"
| "pad (Suc k) n = digit_char (n div 10 ^ k) # pad k n"

text \<open>
  \<open>datetime.isoformat()\<close> of a naive datetime: \<open>YYYY-MM-DDTHH:MM:SS\<close>, followed by
  \<open>.ffffff\<close> when the microsecond is not 0.
\<close>

definition isoformat :: "datetime \<Rightarrow> string" where
  "isoformat t =
     pad 4 (year t) @ ''-'' @ pad 2 (month t) @ ''-'' @ pad 2 (day t) @ ''T'' @
     pad 2 (hour t) @ '':'' @ pad 2 (minute t) @ '':'' @ pad 2 (second t) @
     (if microsecond t = 0 then [] else ''.'' @ pad 6 (microsecond t))"

text \<open>Reading \<open>k\<close> decimal digits from the front of a string.\<close>

fun take_num :: "nat \<Rightarrow> nat \<Rightarrow> string \<Rightarrow> (nat \<times> string) option" where
  "take_num 0 acc s = Some (acc, s)"
| "take_num (Suc k) acc [] = None"
| "take_num (Suc k) acc (c # s) =
     (case digit_of c of None \<Rightarrow> None | Some d \<Rightarrow> take_num k (10 * acc + d) s)"

fun expect :: "char \<Rightarrow> string \<Rightarrow> string option" where
  "expect c [] = None"
| "expect c (x # s) = (if x = c then Some s else None)"

text \<open>
  Reading a string of one of the two shapes that \<open>isoformat\<close> writes; \<open>None\<close> for any
  other string.
\<close>

definition parse_fraction :: "string \<Rightarrow> nat option" where
  "parse_fraction s =
     (if s = [] then Some 0
      else do {
        s1 \<leftarrow> expect CHR ''.'' s;
        (us, s2) \<leftarrow> take_num 6 0 s1;
        if s2 = [] then Some us else None
      })"

definition parse_canonical :: "string \<Rightarrow> datetime option" where
  "parse_canonical s = do {
     (y, s1) \<leftarrow> take_num 4 0 s;
     s2 \<leftarrow> expect CHR ''-'' s1;
     (mo, s3) \<leftarrow> take_num 2 0 s2;
     s4 \<leftarrow> expect CHR ''-'' s3;
     (d, s5) \<leftarrow> take_num 2 0 s4;
     s6 \<leftarrow> expect CHR ''T'' s5;
     (h, s7) \<leftarrow> take_num 2 0 s6;
     s8 \<leftarrow> expect CHR '':'' s7;
     (mi, s9) \<leftarrow> take_num 2 0 s8;
     s10 \<leftarrow> expect CHR '':'' s9;
     (sec, s11) \<leftarrow> take_num 2 0 s10;
     us \<leftarrow> parse_fraction s11;
     Some \<lparr>year = y, month = mo, day = d, hour = h, minute = mi, second = sec,
           microsecond = us\<rparr>
   }"

text \<open>
  \<open>datetime.datetime.fromisoformat(v)\<close>. An argument that is not a \<open>str\<close> raises
  \<open>TypeError\<close>. On a string of the shape that \<open>isoformat\<close> writes, with every field in its
  range, the library returns that datetime. What it does on any other string (the other
  ISO 8601 forms it accepts, which vary with the Python version, and \<open>ValueError\<close> for
  the rest) is the parameter \<open>other\<close>.
\<close>

definition fromisoformat :: "(string \<Rightarrow> pyerr + datetime) \<Rightarrow> pyval \<Rightarrow> pyerr + datetime" where
  "fromisoformat other v =
     (case v of
        PStr s \<Rightarrow>
          (case parse_canonical s of
             Some t \<Rightarrow> if valid_datetime t then Inr t else other s
           | None \<Rightarrow> other s)
      | _ \<Rightarrow> Inl TypeError)"

section \<open>Student\<close>

text \<open>
  \<open>class Student\<close>. The identity fields have the types that \<open>__init__\<close> annotates
  (\<open>str\<close>, \<open>str\<close>, \<open>int\<close>, \<open>str\<close>); \<open>scores\<close> is a \<open>dict\<close> from subject to whatever
  object was stored, since \<open>add_score\<close> tests the run-time type of a score itself and
  \<open>from_dict\<close> stores the scores of a document unchecked.
\<close>

record student =
  student_id :: string
  name :: string
  age :: int
  gender :: string
  scores :: "(string \<times> pyval) list"
  create_time :: datetime

text \<open>\<open>Student.__init__\<close>; the clock reading of \<open>datetime.datetime.now()\<close> is a parameter.\<close>

definition Student :: "datetime \<Rightarrow> string \<Rightarrow> string \<Rightarrow> int \<Rightarrow> string \<Rightarrow> student" where
  "Student now sid nm ag gd =
     \<lparr>student_id = sid, name = nm, age = ag, gender = gd, scores = [], create_time = now\<rparr>"

text \<open>
  \<open>Student.add_score\<close>: returns the result and the record after the call.
  \<open>self.scores[subject] = score\<close> overwrites the entry in place or appends a new one,
  which is \<open>AList.update\<close>. The \<open>or\<close> of the source evaluates the comparisons only for
  a number.
\<close>

definition add_score :: "string \<Rightarrow> pyval \<Rightarrow> student \<Rightarrow> bool \<times> student" where
  "add_score subject score st =
     (case num_of score of
        None \<Rightarrow> (False, st)
      | Some x \<Rightarrow>
          if num_less x (Fin 0) \<or> num_less (Fin 100) x then (False, st)
          else (True, st\<lparr>scores := AList.update subject score (scores st)\<rparr>))"


text \<open>\<open>Student.get_total_score\<close>.\<close>

definition get_total_score :: "student \<Rightarrow> pyerr + num" where
  "get_total_score st = py_sum (map snd (scores st))"

text \<open>\<open>Student.to_dict\<close>.\<close>

definition to_dict :: "student \<Rightarrow> pyval" where
  "to_dict st =
     PDict [(''student_id'', PStr (student_id st)),
            (''name'', PStr (name st)),
            (''age'', PInt (age st)),
            (''gender'', PStr (gender st)),
            (''scores'', PDict (scores st)),
            (''create_time'', PStr (isoformat (create_time st)))]"

text \<open>
  The result of a call: a value, an exception, or \<open>Untyped\<close> when Python returns
  normally with an object that the annotations of \<open>Student.__init__\<close> exclude (a name that
  is a number, scores that are a list). The model has no such record and follows the code
  no further on that input.
\<close>

datatype 'a outcome = Returns 'a | Raises pyerr | Untyped

text \<open>Sequencing: an exception of the first step ends the evaluation.\<close>

definition or_raise :: "pyerr + 'a \<Rightarrow> ('a \<Rightarrow> 'b outcome) \<Rightarrow> 'b outcome" where
  "or_raise r k = (case r of Inl e \<Rightarrow> Raises e | Inr v \<Rightarrow> k v)"

fun as_str :: "pyval \<Rightarrow> string option" where
  "as_str (PStr s) = Some s"
| "as_str v = None"

fun as_int :: "pyval \<Rightarrow> int option" where
  "as_int (PInt i) = Some i"
| "as_int v = None"

fun as_dict :: "pyval \<Rightarrow> (string \<times> pyval) list option" where
  "as_dict (PDict kvs) = Some kvs"
| "as_dict v = None"

text \<open>The object that \<open>from_dict\<close> returns, when its fields have the annotated types.\<close>

definition typed_student ::
  "pyval \<Rightarrow> pyval \<Rightarrow> pyval \<Rightarrow> pyval \<Rightarrow> pyval \<Rightarrow> datetime \<Rightarrow> student outcome" where
  "typed_student sid nm ag gd sc t =
     (case do {
        i \<leftarrow> as_str sid;
        n \<leftarrow> as_str nm;
        a \<leftarrow> as_int ag;
        g \<leftarrow> as_str gd;
        s \<leftarrow> as_dict sc;
        Some \<lparr>student_id = i, name = n, age = a, gender = g, scores = s, create_time = t\<rparr>
      } of None \<Rightarrow> Untyped | Some st \<Rightarrow> Returns st)"

text \<open>
  \<open>Student.from_dict\<close>, in the source's order of evaluation: the four subscripts of the
  constructor call, \<open>data.get('scores', {})\<close>, then \<open>data['create_time']\<close> and its
  parsing. Nothing is checked against a range.
\<close>

definition from_dict :: "(string \<Rightarrow> pyerr + datetime) \<Rightarrow> pyval \<Rightarrow> student outcome" where
  "from_dict other data =
     or_raise (getitem data ''student_id'') (\<lambda>sid.
     or_raise (getitem data ''name'') (\<lambda>nm.
     or_raise (getitem data ''age'') (\<lambda>ag.
     or_raise (getitem data ''gender'') (\<lambda>gd.
     or_raise (get_default data ''scores'' (PDict [])) (\<lambda>sc.
     or_raise (getitem data ''create_time'') (\<lambda>ct.
     or_raise (fromisoformat other ct) (\<lambda>t.
       typed_student sid nm ag gd sc t)))))))"

section \<open>The backing file\<close>

text \<open>
  The state of the backing file. The text of a file is represented by the object that
  \<open>json.load\<close> makes of it: \<open>json.dump\<close> followed by \<open>json.load\<close> gives back an equal
  object for every \<open>pyval\<close>, so writing the object \<open>x\<close> leaves the file \<open>Doc x\<close>.
  \<^item> \<open>Absent\<close>: \<open>os.path.exists\<close> is false;
  \<^item> \<open>Unreadable\<close>: the path exists and \<open>open\<close> or \<open>read\<close> raises \<open>OSError\<close>;
  \<^item> \<open>Garbled\<close>: the text is not JSON (empty, truncated, not UTF-8), \<open>json.load\<close> raises;
  \<^item> \<open>Doc x\<close>: \<open>json.load\<close> returns \<open>x\<close>.
\<close>

datatype backing_file = Absent | Unreadable | Garbled | Doc pyval

text \<open>
  What the next \<open>open(..., 'w')\<close> and \<open>json.dump\<close> will do: succeed, fail at \<open>open\<close>
  before the file is touched, or fail after \<open>open\<close> has truncated the file.
\<close>

datatype write_outcome = Written | OpenFails | WriteFails

record disk =
  content :: backing_file
  on_write :: write_outcome

section \<open>StudentManager\<close>

record StudentManager =
  data_file :: string
  students :: "(string \<times> student) list"

text \<open>The document that \<open>save_data\<close> builds.\<close>

definition document :: "StudentManager \<Rightarrow> pyval" where
  "document m = PDict [(''students'', PDict (map (\<lambda>(sid, st). (sid, to_dict st)) (students m)))]"

text \<open>
  \<open>StudentManager.save_data\<close>: the result and the disk after the call. Every exception
  is caught.
\<close>

definition save_data :: "StudentManager \<Rightarrow> disk \<Rightarrow> bool \<times> disk" where
  "save_data m d =
     (case on_write d of
        Written \<Rightarrow> (True, d\<lparr>content := Doc (document m)\<rparr>)
      | OpenFails \<Rightarrow> (False, d)
      | WriteFails \<Rightarrow> (False, d\<lparr>content := Garbled\<rparr>))"

text \<open>
  The dictionary comprehension of \<open>load_data\<close>: \<open>from_dict\<close> on each item in order. The
  first exception ends it; an ill-typed record does not, since Python goes on to the
  next item.
\<close>

fun from_dict_items ::
  "(string \<Rightarrow> pyerr + datetime) \<Rightarrow> (string \<times> pyval) list \<Rightarrow> (string \<times> student) list outcome" where
  "from_dict_items other [] = Returns []"
| "from_dict_items other ((sid, student_data) # rest) =
     (case from_dict other student_data of
        Raises e \<Rightarrow> Raises e
      | r \<Rightarrow>
          (case from_dict_items other rest of
             Raises e \<Rightarrow> Raises e
           | Untyped \<Rightarrow> Untyped
           | Returns kvs \<Rightarrow>
               (case r of Returns st \<Rightarrow> Returns ((sid, st) # kvs) | _ \<Rightarrow> Untyped)))"

text \<open>
  The right-hand side of the assignment in \<open>load_data\<close>:
  \<open>data.get('students', {}).items()\<close> and the comprehension over it.
\<close>

definition load_students ::
  "(string \<Rightarrow> pyerr + datetime) \<Rightarrow> pyval \<Rightarrow> (string \<times> student) list outcome" where
  "load_students other data =
     (case get_default data ''students'' (PDict []) of
        Inl e \<Rightarrow> Raises e
      | Inr ss \<Rightarrow> (case ss of PDict items \<Rightarrow> from_dict_items other items
                   | _ \<Rightarrow> Raises AttributeError))"

text \<open>
  \<open>StudentManager.load_data\<close>: the result and the manager after the call; \<open>None\<close> where
  the document holds an ill-typed record and no exception occurs (see \<open>Untyped\<close>).
  \<open>self.students\<close> is assigned only after the whole comprehension has been evaluated.
\<close>

definition load_data ::
  "(string \<Rightarrow> pyerr + datetime) \<Rightarrow> StudentManager \<Rightarrow> disk \<Rightarrow> (bool \<times> StudentManager) option" where
  "load_data other m d =
     (case content d of
        Absent \<Rightarrow> Some (True, m)
      | Unreadable \<Rightarrow> Some (False, m)
      | Garbled \<Rightarrow> Some (False, m)
      | Doc data \<Rightarrow>
          (case load_students other data of
             Raises e \<Rightarrow> Some (False, m)
           | Untyped \<Rightarrow> None
           | Returns kvs \<Rightarrow> Some (True, m\<lparr>students := kvs\<rparr>)))"

text \<open>\<open>StudentManager.__init__\<close>; the result of its \<open>load_data\<close> call is kept for reference.\<close>

definition StudentManager_init ::
  "(string \<Rightarrow> pyerr + datetime) \<Rightarrow> string \<Rightarrow> disk \<Rightarrow> (bool \<times> StudentManager) option" where
  "StudentManager_init other path d = load_data other \<lparr>data_file = path, students = []\<rparr> d"

text \<open>
  \<open>StudentManager.add_student\<close>: the result, the manager and the disk after the call.
  The result of \<open>save_data\<close> is dropped.
\<close>

definition add_student :: "student \<Rightarrow> StudentManager \<Rightarrow> disk \<Rightarrow> bool \<times> StudentManager \<times> disk" where
  "add_student st m d =
     (if student_id st \<in> set (map fst (students m)) then (False, m, d)
      else let m' = m\<lparr>students := AList.update (student_id st) st (students m)\<rparr>
           in (True, m', snd (save_data m' d)))"

text \<open>\<open>StudentManager.delete_student\<close>.\<close>

definition delete_student :: "string \<Rightarrow> StudentManager \<Rightarrow> disk \<Rightarrow> bool \<times> StudentManager \<times> disk" where
  "delete_student sid m d =
     (if sid \<notin> set (map fst (students m)) then (False, m, d)
      else let m' = m\<lparr>students := AList.delete sid (students m)\<rparr>
           in (True, m', snd (save_data m' d)))"

text \<open>
  The keyword arguments of \<open>update_student\<close> that the method looks at; any other keyword
  is ignored by it.
\<close>

record kwargs =
  kw_name :: "string option"
  kw_age :: "int option"
  kw_gender :: "string option"
  kw_scores :: "(string \<times> pyval) list option"

text \<open>The loop over \<open>kwargs['scores'].items()\<close>; the result of each \<open>add_score\<close> is dropped.\<close>

fun add_scores :: "(string \<times> pyval) list \<Rightarrow> student \<Rightarrow> student" where
  "add_scores [] st = st"
| "add_scores ((subject, score) # rest) st = add_scores rest (snd (add_score subject score st))"

text \<open>
  \<open>StudentManager.update_student\<close>: first the basic fields that are supplied, then the
  scores. The record is changed in place, so it keeps its position in \<open>self.students\<close>.
\<close>

definition update_basic :: "kwargs \<Rightarrow> student \<Rightarrow> student" where
  "update_basic kw st =
     (let st1 = (case kw_name kw of Some n \<Rightarrow> st\<lparr>name := n\<rparr> | None \<Rightarrow> st);
          st2 = (case kw_age kw of Some a \<Rightarrow> st1\<lparr>age := a\<rparr> | None \<Rightarrow> st1)
      in (case kw_gender kw of Some g \<Rightarrow> st2\<lparr>gender := g\<rparr> | None \<Rightarrow> st2))"

definition update_fields :: "kwargs \<Rightarrow> student \<Rightarrow> student" where
  "update_fields kw st =
     (case kw_scores kw of
        Some ps \<Rightarrow> add_scores ps (update_basic kw st)
      | None \<Rightarrow> update_basic kw st)"

definition update_student ::
  "string \<Rightarrow> kwargs \<Rightarrow> StudentManager \<Rightarrow> disk \<Rightarrow> bool \<times> StudentManager \<times> disk" where
  "update_student sid kw m d =
     (case map_of (students m) sid of
        None \<Rightarrow> (False, m, d)
      | Some st \<Rightarrow>
          let m' = m\<lparr>students := AList.update sid (update_fields kw st) (students m)\<rparr>
          in (True, m', snd (save_data m' d)))"

text \<open>\<open>StudentManager.find_student\<close>.\<close>

definition find_student :: "string \<Rightarrow> StudentManager \<Rightarrow> student option" where
  "find_student sid m = map_of (students m) sid"

text \<open>
  What \<open>GradeManagerUI.add_score_ui\<close> does to the manager and the disk once the inputs
  are read (the score is the \<open>float\<close> that \<open>float(input())\<close> returned): the record is
  looked up, the range is checked, and the stored record is changed in place by
  \<open>add_score\<close>, followed by \<open>save_data\<close> when that succeeded.
\<close>

definition add_score_ui :: "string \<Rightarrow> string \<Rightarrow> num \<Rightarrow> StudentManager \<Rightarrow> disk \<Rightarrow> StudentManager \<times> disk" where
  "add_score_ui sid subject score m d =
     (if sid = [] then (m, d)
      else case find_student sid m of
        None \<Rightarrow> (m, d)
      | Some st \<Rightarrow>
          if subject = [] then (m, d)
          else if num_less score (Fin 0) \<or> num_less (Fin 100) score then (m, d)
          else (case add_score subject (PFloat score) st of
                  (True, st') \<Rightarrow>
                    let m' = m\<lparr>students := AList.update sid st' (students m)\<rparr>
                    in (m', snd (save_data m' d))
                | (False, st') \<Rightarrow> (m, d)))"

section \<open>Statistics\<close>




section \<open>Sequences of operations\<close>

datatype operation =
    Add student
  | Delete string
  | Update string kwargs
  | InsertScore string string num
  | Load

text \<open>One operation on the manager and the disk; \<open>None\<close> only where \<open>load_data\<close> is.\<close>

fun step ::
  "(string \<Rightarrow> pyerr + datetime) \<Rightarrow> operation \<Rightarrow> StudentManager \<times> disk \<Rightarrow> (StudentManager \<times> disk) option" where
  "step other (Add st) (m, d) = Some (snd (add_student st m d))"
| "step other (Delete sid) (m, d) = Some (snd (delete_student sid m d))"
| "step other (Update sid kw) (m, d) = Some (snd (update_student sid kw m d))"
| "step other (InsertScore sid subject score) (m, d) = Some (add_score_ui sid subject score m d)"
| "step other Load (m, d) =
     (case load_data other m d of None \<Rightarrow> None | Some (ok, m') \<Rightarrow> Some (m', d))"

fun run ::
  "(string \<Rightarrow> pyerr + datetime) \<Rightarrow> operation list \<Rightarrow> StudentManager \<times> disk \<Rightarrow> (StudentManager \<times> disk) option" where
  "run other [] s = Some s"
| "run other (op # ops) s = (case step other op s of None \<Rightarrow> None | Some s' \<Rightarrow> run other ops s')"

section \<open>Vocabulary of the specification\<close>

text \<open>A value lies in [0,100]: it is a number \<open>x\<close> with \<open>0 <= x <= 100\<close>.\<close>

definition in_range :: "pyval \<Rightarrow> bool" where
  "in_range v = (case num_of v of None \<Rightarrow> False | Some x \<Rightarrow> num_le (Fin 0) x \<and> num_le x (Fin 100))"

text \<open>
  A number below 0 or above 100, which is what the test of \<open>add_score\<close> turns away.
  This is not the complement of \<open>in_range\<close> among the numbers: the float NaN is neither
  in [0,100] nor below 0 nor above 100.
\<close>

definition out_of_range :: "pyval \<Rightarrow> bool" where
  "out_of_range v = (case num_of v of None \<Rightarrow> False | Some x \<Rightarrow> num_less x (Fin 0) \<or> num_less (Fin 100) x)"

text \<open>Every score of a record, and of every record of a store, lies in [0,100].\<close>

definition scores_in_range :: "student \<Rightarrow> bool" where
  "scores_in_range st = list_all (\<lambda>(subject, v). in_range v) (scores st)"

definition store_in_range :: "StudentManager \<Rightarrow> bool" where
  "store_in_range m = list_all (\<lambda>(sid, st). scores_in_range st) (students m)"

text \<open>
  The backing file holds no score outside [0,100]: either it does not load, or the
  records it loads have their scores in [0,100].
\<close>

definition disk_in_range :: "(string \<Rightarrow> pyerr + datetime) \<Rightarrow> disk \<Rightarrow> bool" where
  "disk_in_range other d =
     (case content d of
        Doc data \<Rightarrow>
          (case load_students other data of
             Returns kvs \<Rightarrow> list_all (\<lambda>(sid, st). scores_in_range st) kvs
           | _ \<Rightarrow> True)
      | _ \<Rightarrow> True)"

text \<open>
  An operation that brings no score from outside: an added record has its scores in
  [0,100], and no value handed to \<open>add_score\<close> is NaN.
\<close>

definition not_nan :: "pyval \<Rightarrow> bool" where
  "not_nan v = (num_of v \<noteq> Some NaN)"

fun clean_operation :: "operation \<Rightarrow> bool" where
  "clean_operation (Add st) = scores_in_range st"
| "clean_operation (Delete sid) = True"
| "clean_operation (Update sid kw) =
     (case kw_scores kw of None \<Rightarrow> True | Some ps \<Rightarrow> list_all (\<lambda>(subject, v). not_nan v) ps)"
| "clean_operation (InsertScore sid subject score) = (score \<noteq> NaN)"
| "clean_operation Load = True"

text \<open>A valid record and a valid store: scores in [0,100], a well-formed timestamp.\<close>

definition valid_student :: "student \<Rightarrow> bool" where
  "valid_student st = (scores_in_range st \<and> valid_datetime (create_time st))"

definition valid_store :: "StudentManager \<Rightarrow> bool" where
  "valid_store m = list_all (\<lambda>(sid, st). valid_student st) (students m)"








section \<open>Example data\<close>

text \<open>A library that accepts no string beyond those \<open>isoformat\<close> writes.\<close>

definition strict :: "string \<Rightarrow> pyerr + datetime" where
  "strict s = Inl ValueError"

definition leap_day :: datetime where
  "leap_day = \<lparr>year = 2024, month = 2, day = 29, hour = 13, minute = 5, second = 9,
               microsecond = 120\<rparr>"

definition ann :: student where
  "ann = \<lparr>student_id = ''A1'', name = ''Ann'', age = 20, gender = ''F'',
          scores = [(''math'', PInt 95)], create_time = leap_day\<rparr>"

definition bob :: student where
  "bob = \<lparr>student_id = ''A2'', name = ''Bob'', age = 21, gender = ''M'',
          scores = [(''math'', PInt 50), (''art'', PFloat (Fin 60))],
          create_time = leap_day\<lparr>microsecond := 0\<rparr>\<rparr>"

definition cy :: student where
  "cy = \<lparr>student_id = ''A3'', name = ''Cy'', age = 22, gender = ''M'',
         scores = [(''math'', PInt 72)], create_time = leap_day\<rparr>"

text \<open>A class whose averages are 95, 55 and 72.\<close>

definition class_store :: StudentManager where
  "class_store = \<lparr>data_file = ''students_data.json'',
                  students = [(''A1'', ann), (''A2'', bob), (''A3'', cy)]\<rparr>"

definition empty_store :: StudentManager where
  "empty_store = \<lparr>data_file = ''students_data.json'', students = []\<rparr>"

definition dee :: student where
  "dee = Student leap_day ''A4'' ''Dee'' 19 ''F''"


text \<open>
  Keyword arguments of an update: a new name and three marks, of which the last is above
  100.
\<close>

definition new_marks :: "(string \<times> pyval) list" where
  "new_marks = [(''math'', PInt 80), (''music'', PInt 70), (''art'', PInt 150)]"

definition rename_and_grade :: kwargs where
  "rename_and_grade = \<lparr>kw_name = Some ''Rob'', kw_age = None, kw_gender = None,
                        kw_scores = Some new_marks\<rparr>"

text \<open>An update whose one mark is the float NaN.\<close>

definition grade_nan :: kwargs where
  "grade_nan = \<lparr>kw_name = None, kw_age = None, kw_gender = None,
                 kw_scores = Some [(''math'', PFloat NaN)]\<rparr>"

definition blank_disk :: disk where
  "blank_disk = \<lparr>content = Absent, on_write = Written\<rparr>"

text \<open>A backing file whose one record has the score 150, and one whose record lacks a name.\<close>

definition edited_disk :: disk where
  "edited_disk =
     \<lparr>content = Doc (PDict [(''students'', PDict [(''A1'',
         PDict [(''student_id'', PStr ''A1''), (''name'', PStr ''Ann''), (''age'', PInt 20),
                (''gender'', PStr ''F''), (''scores'', PDict [(''math'', PInt 150)]),
                (''create_time'', PStr ''2024-02-29T13:05:09'')])])]),
      on_write = Written\<rparr>"

text \<open>The record that \<open>edited_disk\<close> holds.\<close>

definition ann_150 :: student where
  "ann_150 = \<lparr>student_id = ''A1'', name = ''Ann'', age = 20, gender = ''F'',
              scores = [(''math'', PInt 150)], create_time = leap_day\<lparr>microsecond := 0\<rparr>\<rparr>"

text \<open>A session: a new record, a mark for it, and a reload of the file.\<close>

definition session :: "operation list" where
  "session = [Add dee, InsertScore ''A4'' ''math'' (Fin 88), Delete ''A3'', Load]"

definition nameless_disk :: disk where
  "nameless_disk =
     \<lparr>content = Doc (PDict [(''students'', PDict [(''A1'',
         PDict [(''student_id'', PStr ''A1''), (''age'', PInt 20)])])]),
      on_write = Written\<rparr>"

section \<open>Properties of \<open>add_score\<close>\<close>

lemma is_number_num_of: "is_number v \<longleftrightarrow> num_of v \<noteq> None"
  by (cases v) simp_all

lemma in_range_accepted:
  assumes "in_range v"
  shows "\<exists>x. num_of v = Some x \<and> \<not> num_less x (Fin 0) \<and> \<not> num_less (Fin 100) x"
proof -
  from assms obtain x where x: "num_of v = Some x" "num_le (Fin 0) x" "num_le x (Fin 100)"
    by (auto simp: in_range_def split: option.splits)
  then have "\<not> num_less x (Fin 0) \<and> \<not> num_less (Fin 100) x"
    by (cases x) auto
  with x(1) show ?thesis by blast
qed

lemma add_score_in_range:
  "in_range v \<Longrightarrow> add_score subject v st = (True, st\<lparr>scores := AList.update subject v (scores st)\<rparr>)"
  using in_range_accepted [of v] by (auto simp: add_score_def)

lemma add_score_rejected:
  "\<not> is_number v \<or> out_of_range v \<Longrightarrow> add_score subject v st = (False, st)"
  by (auto simp: add_score_def out_of_range_def is_number_num_of split: option.splits)

text \<open>
  What \<open>add_score\<close> does away from NaN: a number in [0,100] is accepted and read back;
  a value that is not a number, or is a number below 0 or above 100, is refused and the
  record is what it was.
\<close>

lemma add_score_accepts_and_refuses:
  "(is_number v \<and> in_range v \<longrightarrow>
      fst (add_score subject v st) = True \<and>
      map_of (scores (snd (add_score subject v st))) subject = Some v)
   \<and> (\<not> is_number v \<or> out_of_range v \<longrightarrow>
      fst (add_score subject v st) = False \<and> snd (add_score subject v st) = st)"
  by (auto simp: add_score_in_range add_score_rejected AList.update_conv')

text \<open>
  NaN is a number that is neither in [0,100] nor below 0 nor above 100: both comparisons
  of the test are false, and \<open>add_score\<close> stores it.
\<close>

lemma add_score_nan:
  "\<not> in_range (PFloat NaN) \<and> \<not> out_of_range (PFloat NaN) \<and>
   add_score subject (PFloat NaN) st =
     (True, st\<lparr>scores := AList.update subject (PFloat NaN) (scores st)\<rparr>)"
  by (simp add: in_range_def out_of_range_def add_score_def)

text \<open>
  Claim C5 at the float NaN, which \<open>float(input())\<close> returns for the input \<open>nan\<close>. NaN
  is a number and does not lie in [0,100], so the claim has \<open>add_score\<close> return
  \<open>False\<close> and leave the scores as they were. The code returns \<open>True\<close> and the
  subject then reads NaN: the mark 50 that the record had for the subject is gone.
\<close>

theorem add_score_accepts_nan:
  "is_number (PFloat NaN) \<and> \<not> in_range (PFloat NaN) \<and>
   map_of (scores bob) ''math'' = Some (PInt 50) \<and>
   fst (add_score ''math'' (PFloat NaN) bob) = True \<and>
   scores (snd (add_score ''math'' (PFloat NaN) bob)) =
     [(''math'', PFloat NaN), (''art'', PFloat (Fin 60))] \<and>
   map_of (scores (snd (add_score ''math'' (PFloat NaN) bob))) ''math'' = Some (PFloat NaN)"
  by (simp add: in_range_def add_score_def bob_def)

section \<open>Timestamps are read back as written\<close>

lemma digit_of_nth:
  assumes "(x::nat) < 10"
  shows "digit_of (''0123456789'' ! x) = Some x"
proof -
  have low: "x = 0 \<or> x = 1 \<or> x = 2 \<or> x = 3 \<or> x = 4 \<or> 5 \<le> x"
    by linarith
  have high: "5 \<le> x \<Longrightarrow> x = 5 \<or> x = 6 \<or> x = 7 \<or> x = 8 \<or> x = 9"
    using assms by linarith
  from low high consider "x = 0" | "x = 1" | "x = 2" | "x = 3" | "x = 4"
    | "x = 5" | "x = 6" | "x = 7" | "x = 8" | "x = 9"
    by blast
  then show ?thesis
    by cases (simp_all add: digit_of_def)
qed

lemma digit_of_digit_char: "digit_of (digit_char d) = Some (d mod 10)"
  unfolding digit_char_def by (rule digit_of_nth) simp

lemma take_num_pad_gen:
  "take_num k acc (pad k n @ rest) = Some (acc * 10 ^ k + n mod 10 ^ k, rest)"
proof (induction k arbitrary: acc)
  case 0
  then show ?case by simp
next
  case (Suc k)
  have split: "n mod (10 ^ k * 10) = 10 ^ k * (n div 10 ^ k mod 10) + n mod 10 ^ k"
    by (rule mod_mult2_eq)
  have "take_num (Suc k) acc (pad (Suc k) n @ rest) =
        take_num k (10 * acc + n div 10 ^ k mod 10) (pad k n @ rest)"
    by (simp add: digit_of_digit_char)
  also have "\<dots> = Some ((10 * acc + n div 10 ^ k mod 10) * 10 ^ k + n mod 10 ^ k, rest)"
    by (rule Suc.IH)
  also have "(10 * acc + n div 10 ^ k mod 10) * 10 ^ k + n mod 10 ^ k =
             acc * 10 ^ Suc k + (10 ^ k * (n div 10 ^ k mod 10) + n mod 10 ^ k)"
    by (simp add: algebra_simps)
  also have "10 ^ k * (n div 10 ^ k mod 10) + n mod 10 ^ k = n mod 10 ^ Suc k"
    using split by (simp add: mult.commute)
  finally show ?case .
qed

lemma take_num_pad:
  "n < 10 ^ k \<Longrightarrow> take_num k 0 (pad k n @ rest) = Some (n, rest)"
  by (simp add: take_num_pad_gen)

lemma take_num_pad_end:
  "n < 10 ^ k \<Longrightarrow> take_num k 0 (pad k n) = Some (n, [])"
  using take_num_pad [of n k "[]"] by simp

lemma expect_head: "expect c (c # s) = Some s"
  by simp

lemma parse_fraction_iso:
  assumes "us < 10 ^ 6"
  shows "parse_fraction (if us = 0 then [] else CHR ''.'' # pad 6 us) = Some us"
  using assms by (simp add: parse_fraction_def take_num_pad_end)

lemma valid_datetime_bounds:
  assumes "valid_datetime t"
  shows "year t < 10 ^ 4" "month t < 10 ^ 2" "day t < 10 ^ 2" "hour t < 10 ^ 2"
    "minute t < 10 ^ 2" "second t < 10 ^ 2" "microsecond t < 10 ^ 6"
  using assms by (auto simp: valid_datetime_def days_in_month_def split: if_splits)

lemma parse_canonical_isoformat:
  assumes "valid_datetime t"
  shows "parse_canonical (isoformat t) = Some t"
proof -
  note b = valid_datetime_bounds [OF assms]
  have "parse_canonical (isoformat t) =
        Some \<lparr>year = year t, month = month t, day = day t, hour = hour t, minute = minute t,
              second = second t, microsecond = microsecond t\<rparr>"
    unfolding parse_canonical_def isoformat_def
    by (simp only: take_num_pad [OF b(1)] take_num_pad [OF b(2)] take_num_pad [OF b(3)]
        take_num_pad [OF b(4)] take_num_pad [OF b(5)] take_num_pad [OF b(6)]
        parse_fraction_iso [OF b(7)] Option.bind.simps append_Cons append_Nil expect_head
        prod.case if_True)
  then show ?thesis by simp
qed

lemma fromisoformat_isoformat:
  "valid_datetime t \<Longrightarrow> fromisoformat other (PStr (isoformat t)) = Inr t"
  by (simp add: fromisoformat_def parse_canonical_isoformat)

section \<open>Persistence\<close>

lemma from_dict_to_dict:
  "valid_datetime (create_time st) \<Longrightarrow> from_dict other (to_dict st) = Returns st"
  by (simp add: from_dict_def to_dict_def getitem_def get_default_def or_raise_def
      fromisoformat_isoformat typed_student_def)

lemma from_dict_items_to_dict:
  "list_all (\<lambda>(sid, st). valid_datetime (create_time st)) xs \<Longrightarrow>
   from_dict_items other (map (\<lambda>(sid, st). (sid, to_dict st)) xs) = Returns xs"
  by (induction xs) (auto simp: from_dict_to_dict)

lemma load_students_document:
  "list_all (\<lambda>(sid, st). valid_datetime (create_time st)) (students m) \<Longrightarrow>
   load_students other (document m) = Returns (students m)"
  by (simp add: load_students_def document_def get_default_def from_dict_items_to_dict)

lemma valid_store_timestamps:
  "valid_store m \<Longrightarrow> list_all (\<lambda>(sid, st). valid_datetime (create_time st)) (students m)"
  by (auto simp: valid_store_def valid_student_def list_all_iff)

text \<open>
  Claim C1. Persistence round-trips: for every valid store (scores in [0,100], well-formed
  timestamps) and a write that succeeds, \<open>save_data\<close> returns \<open>True\<close>, and loading the
  file it wrote, into any manager and in particular into a freshly constructed one,
  returns \<open>True\<close> with exactly the saved records: same ids, identity fields, scores and
  creation timestamps, in the same order. Likewise \<open>from_dict\<close> after \<open>to_dict\<close> is the
  identity on every valid record.
\<close>

theorem persistence_round_trip:
  fixes m m0 :: StudentManager
  shows
  "(valid_store m \<and> on_write d = Written \<longrightarrow>
      fst (save_data m d) = True \<and>
      load_data other m0 (snd (save_data m d)) = Some (True, m0\<lparr>students := students m\<rparr>) \<and>
      StudentManager_init other (data_file m) (snd (save_data m d)) = Some (True, m))
   \<and> (valid_student st \<longrightarrow> from_dict other (to_dict st) = Returns st)"
  by (auto simp: save_data_def load_data_def StudentManager_init_def load_students_document
      valid_store_timestamps valid_student_def from_dict_to_dict)

lemma from_dict_items_raises:
  "(sid, x) \<in> set items \<Longrightarrow> from_dict other x = Raises e \<Longrightarrow>
   \<exists>e'. from_dict_items other items = Raises e'"
proof (induction items)
  case Nil
  then show ?case by simp
next
  case (Cons p items)
  obtain k y where p: "p = (k, y)" by (cases p)
  show ?case
  proof (cases "from_dict other y")
    case (Raises e1)
    with p show ?thesis by simp
  next
    case (Returns st)
    with Cons p have "\<exists>e'. from_dict_items other items = Raises e'" by auto
    with p Returns show ?thesis by auto
  next
    case Untyped
    with Cons p have "\<exists>e'. from_dict_items other items = Raises e'" by auto
    with p Untyped show ?thesis by auto
  qed
qed

text \<open>
  Claim C8. A failed load leaves the memory as it was. \<open>load_data\<close> has no exceptional
  result. When the file cannot be read, is not JSON, or the evaluation of the records
  raises (in particular when some record of the document fails in \<open>from_dict\<close>), it
  returns \<open>False\<close> and the manager is unchanged; and whenever it returns \<open>False\<close>, the
  manager after the call is the manager before it.
\<close>

theorem load_data_failure_keeps_state:
  "(content d = Unreadable \<or> content d = Garbled \<or>
      (\<exists>data e. content d = Doc data \<and> load_students other data = Raises e)
      \<longrightarrow> load_data other m d = Some (False, m))
   \<and> (content d = Doc (PDict kvs) \<and> map_of kvs ''students'' = Some (PDict items) \<and>
        (sid, x) \<in> set items \<and> from_dict other x = Raises e
      \<longrightarrow> load_data other m d = Some (False, m))
   \<and> (load_data other m d = Some (False, m') \<longrightarrow> m' = m)"
proof (intro conjI impI)
  assume "content d = Unreadable \<or> content d = Garbled \<or>
      (\<exists>data e. content d = Doc data \<and> load_students other data = Raises e)"
  then show "load_data other m d = Some (False, m)"
    by (auto simp: load_data_def)
next
  assume a: "content d = Doc (PDict kvs) \<and> map_of kvs ''students'' = Some (PDict items) \<and>
        (sid, x) \<in> set items \<and> from_dict other x = Raises e"
  then obtain e' where "from_dict_items other items = Raises e'"
    using from_dict_items_raises by blast
  with a show "load_data other m d = Some (False, m)"
    by (simp add: load_data_def load_students_def get_default_def)
next
  assume "load_data other m d = Some (False, m')"
  then show "m' = m"
    by (auto simp: load_data_def split: backing_file.splits outcome.splits)
qed

theorem persistence_round_trip_witness:
  "valid_store class_store \<and> on_write blank_disk = Written \<and>
   fst (save_data class_store blank_disk) = True \<and>
   load_data strict empty_store (snd (save_data class_store blank_disk)) =
     Some (True, empty_store\<lparr>students := students class_store\<rparr>) \<and>
   StudentManager_init strict (data_file class_store) (snd (save_data class_store blank_disk)) =
     Some (True, class_store) \<and>
   valid_student bob \<and> from_dict strict (to_dict bob) = Returns bob"
proof -
  have t: "valid_datetime leap_day" "valid_datetime (leap_day\<lparr>microsecond := 0\<rparr>)"
    by (simp_all add: valid_datetime_def leap_day_def days_in_month_def leap_year_def)
  have v: "valid_student ann" "valid_student bob" "valid_student cy"
    using t by (simp_all add: valid_student_def scores_in_range_def in_range_def
        ann_def bob_def cy_def)
  have s: "valid_store class_store"
    using v by (simp add: valid_store_def class_store_def)
  have w: "on_write blank_disk = Written"
    by (simp add: blank_disk_def)
  show ?thesis
    using s w v(2) persistence_round_trip [of class_store blank_disk strict empty_store bob]
    by blast
qed

theorem load_data_failure_keeps_state_witness:
  "from_dict strict (PDict [(''student_id'', PStr ''A1''), (''age'', PInt 20)])
     = Raises (KeyError ''name'') \<and>
   load_data strict class_store nameless_disk = Some (False, class_store) \<and>
   load_data strict class_store (blank_disk\<lparr>content := Garbled\<rparr>) = Some (False, class_store)"
proof -
  let ?x = "PDict [(''student_id'', PStr ''A1''), (''age'', PInt 20)]"
  have r: "from_dict strict ?x = Raises (KeyError ''name'')"
    by (simp add: from_dict_def getitem_def or_raise_def)
  have c: "content nameless_disk = Doc (PDict [(''students'', PDict [(''A1'', ?x)])]) \<and>
           map_of [(''students'', PDict [(''A1'', ?x)])] ''students'' = Some (PDict [(''A1'', ?x)]) \<and>
           (''A1'', ?x) \<in> set [(''A1'', ?x)] \<and> from_dict strict ?x = Raises (KeyError ''name'')"
    using r by (simp add: nameless_disk_def)
  have g: "content (blank_disk\<lparr>content := Garbled\<rparr>) = Garbled"
    by simp
  show ?thesis
    using r c g
      load_data_failure_keeps_state [where d = nameless_disk and other = strict
        and kvs = "[(''students'', PDict [(''A1'', ?x)])]" and items = "[(''A1'', ?x)]"
        and sid = "''A1''" and x = ?x and e = "KeyError ''name''" and m = class_store]
      load_data_failure_keeps_state [where d = "blank_disk\<lparr>content := Garbled\<rparr>"
        and other = strict and m = class_store]
    by blast
qed

section \<open>Adding and deleting records\<close>

lemma key_present_iff: "k \<in> set (map fst al) \<longleftrightarrow> map_of al k \<noteq> None"
  by (simp add: map_of_eq_None_iff)

text \<open>
  Claim C6. \<open>add_student\<close> has no exceptional result. When the id of the record is
  already a key, it returns \<open>False\<close> and leaves the manager and the disk as they were,
  so the record stored under that id is untouched. When the id is fresh, it returns
  \<open>True\<close>, \<open>find_student\<close> on that id then returns the record that was added, and
  every other id is found as before.
\<close>

theorem add_student_contract:
  "(student_id st \<in> set (map fst (students m)) \<longrightarrow>
      add_student st m d = (False, m, d))
   \<and> (student_id st \<notin> set (map fst (students m)) \<longrightarrow>
      fst (add_student st m d) = True \<and>
      find_student (student_id st) (fst (snd (add_student st m d))) = Some st \<and>
      (\<forall>k. k \<noteq> student_id st \<longrightarrow>
         find_student k (fst (snd (add_student st m d))) = find_student k m))"
  by (simp add: add_student_def find_student_def Let_def AList.update_conv')

text \<open>
  Claim C7. \<open>delete_student\<close> on an absent id returns \<open>False\<close> and leaves the manager
  and the disk as they were; on a present id it returns \<open>True\<close>, \<open>find_student\<close> on
  that id then returns \<open>None\<close>, and every other id is found as before.
\<close>

theorem delete_student_contract:
  "(sid \<notin> set (map fst (students m)) \<longrightarrow>
      delete_student sid m d = (False, m, d))
   \<and> (sid \<in> set (map fst (students m)) \<longrightarrow>
      fst (delete_student sid m d) = True \<and>
      find_student sid (fst (snd (delete_student sid m d))) = None \<and>
      (\<forall>k. k \<noteq> sid \<longrightarrow>
         find_student k (fst (snd (delete_student sid m d))) = find_student k m))"
  by (simp add: delete_student_def find_student_def Let_def AList.delete_conv')

section \<open>Updating a record\<close>

lemma add_score_fields:
  "student_id (snd (add_score k v st)) = student_id st"
  "name (snd (add_score k v st)) = name st"
  "age (snd (add_score k v st)) = age st"
  "gender (snd (add_score k v st)) = gender st"
  "create_time (snd (add_score k v st)) = create_time st"
  by (simp_all add: add_score_def split: option.splits)

lemma add_scores_fields:
  "student_id (add_scores ps st) = student_id st \<and>
   name (add_scores ps st) = name st \<and>
   age (add_scores ps st) = age st \<and>
   gender (add_scores ps st) = gender st \<and>
   create_time (add_scores ps st) = create_time st"
  by (induction ps st rule: add_scores.induct) (simp_all add: add_score_fields)

lemma add_score_other_subject:
  "k' \<noteq> k \<Longrightarrow> map_of (scores (snd (add_score k v st))) k' = map_of (scores st) k'"
  by (simp add: add_score_def AList.update_conv' split: option.splits)

lemma add_scores_unmentioned:
  "k \<notin> fst ` set ps \<Longrightarrow> map_of (scores (add_scores ps st)) k = map_of (scores st) k"
proof (induction ps st rule: add_scores.induct)
  case (1 st)
  then show ?case by simp
next
  case (2 subject score rest st)
  then have "k \<noteq> subject" "k \<notin> fst ` set rest" by auto
  with 2 show ?case by (simp add: add_score_other_subject)
qed

lemma add_scores_accepted:
  "distinct (map fst ps) \<Longrightarrow> (k, v) \<in> set ps \<Longrightarrow> in_range v \<Longrightarrow>
   map_of (scores (add_scores ps st)) k = Some v"
proof (induction ps st rule: add_scores.induct)
  case (1 st)
  then show ?case by simp
next
  case (2 subject score rest st)
  show ?case
  proof (cases "(k, v) = (subject, score)")
    case True
    with 2 have "k \<notin> fst ` set rest" by auto
    then have "map_of (scores (add_scores rest (snd (add_score k v st)))) k =
               map_of (scores (snd (add_score k v st))) k"
      by (rule add_scores_unmentioned)
    with True 2(4) show ?thesis
      by (simp add: add_score_in_range AList.update_conv')
  next
    case False
    with 2 show ?thesis by auto
  qed
qed

lemma add_scores_rejected:
  "\<forall>(k, v) \<in> set ps. \<not> is_number v \<or> out_of_range v \<Longrightarrow> add_scores ps st = st"
  by (induction ps st rule: add_scores.induct) (auto simp: add_score_rejected)

lemma add_scores_rejected_entry:
  "distinct (map fst ps) \<Longrightarrow> (k, v) \<in> set ps \<Longrightarrow> \<not> is_number v \<or> out_of_range v \<Longrightarrow>
   map_of (scores (add_scores ps st)) k = map_of (scores st) k"
proof (induction ps st rule: add_scores.induct)
  case (1 st)
  then show ?case by simp
next
  case (2 subject score rest st)
  show ?case
  proof (cases "(k, v) = (subject, score)")
    case True
    with 2 have "k \<notin> fst ` set rest" by auto
    then have "map_of (scores (add_scores rest (snd (add_score k v st)))) k =
               map_of (scores (snd (add_score k v st))) k"
      by (rule add_scores_unmentioned)
    with True 2(4) show ?thesis
      by (simp add: add_score_rejected)
  next
    case False
    with 2 have in_rest: "(k, v) \<in> set rest" and d: "distinct (map fst rest)" by auto
    then have "k \<in> fst ` set rest" by force
    with 2(2) have "k \<noteq> subject" by auto
    with 2 in_rest d show ?thesis by (simp add: add_score_other_subject)
  qed
qed

lemma add_score_scores_cong:
  "scores st1 = scores st2 \<Longrightarrow>
   scores (snd (add_score k v st1)) = scores (snd (add_score k v st2))"
  by (simp add: add_score_def split: option.splits)

lemma add_scores_scores_cong:
  "scores st1 = scores st2 \<Longrightarrow> scores (add_scores ps st1) = scores (add_scores ps st2)"
proof (induction ps arbitrary: st1 st2)
  case Nil
  then show ?case by simp
next
  case (Cons p ps)
  obtain k v where p: "p = (k, v)" by (cases p)
  from Cons.prems have "scores (snd (add_score k v st1)) = scores (snd (add_score k v st2))"
    by (rule add_score_scores_cong)
  then have "scores (add_scores ps (snd (add_score k v st1))) =
             scores (add_scores ps (snd (add_score k v st2)))"
    by (rule Cons.IH)
  then show ?case by (simp add: p)
qed

lemma update_basic_name:
  "name (update_basic kw st) = (case kw_name kw of Some n \<Rightarrow> n | None \<Rightarrow> name st)"
  by (cases "kw_name kw"; cases "kw_age kw"; cases "kw_gender kw")
    (simp_all add: update_basic_def)

lemma update_basic_age:
  "age (update_basic kw st) = (case kw_age kw of Some a \<Rightarrow> a | None \<Rightarrow> age st)"
  by (cases "kw_name kw"; cases "kw_age kw"; cases "kw_gender kw")
    (simp_all add: update_basic_def)

lemma update_basic_gender:
  "gender (update_basic kw st) = (case kw_gender kw of Some g \<Rightarrow> g | None \<Rightarrow> gender st)"
  by (cases "kw_name kw"; cases "kw_age kw"; cases "kw_gender kw")
    (simp_all add: update_basic_def)

lemma update_basic_rest:
  "student_id (update_basic kw st) = student_id st"
  "create_time (update_basic kw st) = create_time st"
  "scores (update_basic kw st) = scores st"
  by (cases "kw_name kw"; cases "kw_age kw"; cases "kw_gender kw";
      simp add: update_basic_def)+

lemma update_fields_identity:
  "student_id (update_fields kw st) = student_id st"
  "create_time (update_fields kw st) = create_time st"
  by (cases "kw_scores kw"; simp add: update_fields_def add_scores_fields update_basic_rest)+

lemma update_fields_name:
  "name (update_fields kw st) = (case kw_name kw of Some n \<Rightarrow> n | None \<Rightarrow> name st)"
  by (cases "kw_scores kw"; simp add: update_fields_def add_scores_fields update_basic_name)

lemma update_fields_age:
  "age (update_fields kw st) = (case kw_age kw of Some a \<Rightarrow> a | None \<Rightarrow> age st)"
  by (cases "kw_scores kw"; simp add: update_fields_def add_scores_fields update_basic_age)

lemma update_fields_gender:
  "gender (update_fields kw st) = (case kw_gender kw of Some g \<Rightarrow> g | None \<Rightarrow> gender st)"
  by (cases "kw_scores kw"; simp add: update_fields_def add_scores_fields update_basic_gender)

lemma update_fields_scores:
  "scores (update_fields kw st) =
     (case kw_scores kw of Some ps \<Rightarrow> scores (add_scores ps st) | None \<Rightarrow> scores st)"
proof (cases "kw_scores kw")
  case None
  then show ?thesis by (simp add: update_fields_def update_basic_rest)
next
  case (Some ps)
  have "scores (add_scores ps (update_basic kw st)) = scores (add_scores ps st)"
    by (rule add_scores_scores_cong) (rule update_basic_rest)
  with Some show ?thesis by (simp add: update_fields_def)
qed

lemma update_student_absent:
  "find_student sid m = None \<Longrightarrow> update_student sid kw m d = (False, m, d)"
  by (simp add: update_student_def find_student_def)

lemma update_student_present:
  assumes "find_student sid m = Some st"
  shows "fst (update_student sid kw m d) = True"
    and "find_student sid (fst (snd (update_student sid kw m d))) = Some (update_fields kw st)"
    and "k \<noteq> sid \<Longrightarrow> find_student k (fst (snd (update_student sid kw m d))) = find_student k m"
    and "snd (snd (update_student sid kw m d)) =
         snd (save_data (fst (snd (update_student sid kw m d))) d)"
  using assms
  by (simp_all add: update_student_def find_student_def Let_def AList.update_conv')

text \<open>
  Claim C3. \<open>update_student\<close> on an absent id returns \<open>False\<close> and leaves the manager
  and the disk as they were. On a present id it returns \<open>True\<close>; the record found
  afterwards has the id and creation time it had, each of name, age and gender is the
  supplied value or, when none is supplied, the old one, and every other record is found
  as before. Scores that are not supplied stay; supplied scores are merged by
  \<open>add_score\<close>, entry by entry: a subject that the update does not mention keeps its
  value, a mentioned subject whose value \<open>add_score\<close> accepts reads that value, and a
  mentioned subject whose value \<open>add_score\<close> rejects keeps what it had.
\<close>

theorem update_student_contract:
  "(find_student sid m = None \<longrightarrow> update_student sid kw m d = (False, m, d))
   \<and> (find_student sid m = Some st \<longrightarrow>
        fst (update_student sid kw m d) = True \<and>
        (\<exists>st'. find_student sid (fst (snd (update_student sid kw m d))) = Some st' \<and>
           student_id st' = student_id st \<and> create_time st' = create_time st \<and>
           name st' = (case kw_name kw of Some n \<Rightarrow> n | None \<Rightarrow> name st) \<and>
           age st' = (case kw_age kw of Some a \<Rightarrow> a | None \<Rightarrow> age st) \<and>
           gender st' = (case kw_gender kw of Some g \<Rightarrow> g | None \<Rightarrow> gender st) \<and>
           (kw_scores kw = None \<longrightarrow> scores st' = scores st) \<and>
           (\<forall>ps. kw_scores kw = Some ps \<longrightarrow>
              scores st' = scores (add_scores ps st) \<and>
              (\<forall>k. k \<notin> fst ` set ps \<longrightarrow> map_of (scores st') k = map_of (scores st) k) \<and>
              (distinct (map fst ps) \<longrightarrow>
                 (\<forall>(k, v) \<in> set ps.
                    (in_range v \<longrightarrow> map_of (scores st') k = Some v) \<and>
                    (\<not> is_number v \<or> out_of_range v \<longrightarrow>
                       map_of (scores st') k = map_of (scores st) k))))) \<and>
        (\<forall>k. k \<noteq> sid \<longrightarrow>
           find_student k (fst (snd (update_student sid kw m d))) = find_student k m))"
proof (intro conjI impI)
  assume "find_student sid m = None"
  then show "update_student sid kw m d = (False, m, d)"
    by (rule update_student_absent)
next
  assume f: "find_student sid m = Some st"
  then show "fst (update_student sid kw m d) = True"
    by (rule update_student_present)
next
  assume f: "find_student sid m = Some st"
  then show "\<forall>k. k \<noteq> sid \<longrightarrow>
      find_student k (fst (snd (update_student sid kw m d))) = find_student k m"
    by (simp add: update_student_present)
next
  assume f: "find_student sid m = Some st"
  let ?st' = "update_fields kw st"
  have found: "find_student sid (fst (snd (update_student sid kw m d))) = Some ?st'"
    using f by (rule update_student_present)
  have sc: "\<forall>ps. kw_scores kw = Some ps \<longrightarrow>
              scores ?st' = scores (add_scores ps st) \<and>
              (\<forall>k. k \<notin> fst ` set ps \<longrightarrow> map_of (scores ?st') k = map_of (scores st) k) \<and>
              (distinct (map fst ps) \<longrightarrow>
                 (\<forall>(k, v) \<in> set ps.
                    (in_range v \<longrightarrow> map_of (scores ?st') k = Some v) \<and>
                    (\<not> is_number v \<or> out_of_range v \<longrightarrow>
                       map_of (scores ?st') k = map_of (scores st) k)))"
  proof (intro allI impI)
    fix ps assume ps: "kw_scores kw = Some ps"
    then have eq: "scores ?st' = scores (add_scores ps st)"
      by (simp add: update_fields_scores)
    show "scores ?st' = scores (add_scores ps st) \<and>
              (\<forall>k. k \<notin> fst ` set ps \<longrightarrow> map_of (scores ?st') k = map_of (scores st) k) \<and>
              (distinct (map fst ps) \<longrightarrow>
                 (\<forall>(k, v) \<in> set ps.
                    (in_range v \<longrightarrow> map_of (scores ?st') k = Some v) \<and>
                    (\<not> is_number v \<or> out_of_range v \<longrightarrow>
                       map_of (scores ?st') k = map_of (scores st) k)))"
      unfolding eq
      using add_scores_unmentioned [of _ ps st] add_scores_accepted [of ps _ _ st]
        add_scores_rejected_entry [of ps _ _ st]
      by blast
  qed
  have props: "student_id ?st' = student_id st \<and> create_time ?st' = create_time st \<and>
        name ?st' = (case kw_name kw of Some n \<Rightarrow> n | None \<Rightarrow> name st) \<and>
        age ?st' = (case kw_age kw of Some a \<Rightarrow> a | None \<Rightarrow> age st) \<and>
        gender ?st' = (case kw_gender kw of Some g \<Rightarrow> g | None \<Rightarrow> gender st) \<and>
        (kw_scores kw = None \<longrightarrow> scores ?st' = scores st)"
    by (simp add: update_fields_identity update_fields_name update_fields_age
        update_fields_gender update_fields_scores)
  show "\<exists>st'. find_student sid (fst (snd (update_student sid kw m d))) = Some st' \<and>
           student_id st' = student_id st \<and> create_time st' = create_time st \<and>
           name st' = (case kw_name kw of Some n \<Rightarrow> n | None \<Rightarrow> name st) \<and>
           age st' = (case kw_age kw of Some a \<Rightarrow> a | None \<Rightarrow> age st) \<and>
           gender st' = (case kw_gender kw of Some g \<Rightarrow> g | None \<Rightarrow> gender st) \<and>
           (kw_scores kw = None \<longrightarrow> scores st' = scores st) \<and>
           (\<forall>ps. kw_scores kw = Some ps \<longrightarrow>
              scores st' = scores (add_scores ps st) \<and>
              (\<forall>k. k \<notin> fst ` set ps \<longrightarrow> map_of (scores st') k = map_of (scores st) k) \<and>
              (distinct (map fst ps) \<longrightarrow>
                 (\<forall>(k, v) \<in> set ps.
                    (in_range v \<longrightarrow> map_of (scores st') k = Some v) \<and>
                    (\<not> is_number v \<or> out_of_range v \<longrightarrow>
                       map_of (scores st') k = map_of (scores st) k))))"
    by (intro exI [of _ "update_fields kw st"] conjI) (use found sc props in blast)+
qed

lemma update_basic_without_scores:
  "update_basic (kw\<lparr>kw_scores := x\<rparr>) st = update_basic kw st"
  by (simp add: update_basic_def)

text \<open>
  When \<open>add_score\<close> refuses every supplied score (none is a number in [0,100] and none
  is NaN), \<open>update_student\<close> on a stored id still returns \<open>True\<close> and still saves;
  the scores of the record are what they were; and the whole result (return value,
  manager and disk) equals that of the same call without the \<open>scores\<close> argument.
\<close>

lemma update_refused_scores_silent:
  "find_student sid m = Some st \<and> kw_scores kw = Some ps \<and>
   (\<forall>(k, v) \<in> set ps. \<not> is_number v \<or> out_of_range v) \<longrightarrow>
     fst (update_student sid kw m d) = True \<and>
     update_student sid kw m d = update_student sid (kw\<lparr>kw_scores := None\<rparr>) m d \<and>
     (\<exists>st'. find_student sid (fst (snd (update_student sid kw m d))) = Some st' \<and>
            scores st' = scores st) \<and>
     snd (snd (update_student sid kw m d)) =
       snd (save_data (fst (snd (update_student sid kw m d))) d) \<and>
     (on_write d = Written \<longrightarrow>
        content (snd (snd (update_student sid kw m d))) =
          Doc (document (fst (snd (update_student sid kw m d)))))"
proof
  assume a: "find_student sid m = Some st \<and> kw_scores kw = Some ps \<and>
   (\<forall>(k, v) \<in> set ps. \<not> is_number v \<or> out_of_range v)"
  then have f: "find_student sid m = Some st" and ps: "kw_scores kw = Some ps"
    and bad: "\<forall>(k, v) \<in> set ps. \<not> is_number v \<or> out_of_range v"
    by blast+
  have same: "update_fields kw st = update_fields (kw\<lparr>kw_scores := None\<rparr>) st"
    using ps add_scores_rejected [OF bad]
    by (simp add: update_fields_def update_basic_without_scores)
  have r: "fst (update_student sid kw m d) = True"
    using f by (rule update_student_present)
  have e: "update_student sid kw m d = update_student sid (kw\<lparr>kw_scores := None\<rparr>) m d"
    using f same by (simp add: update_student_def find_student_def)
  have found: "find_student sid (fst (snd (update_student sid kw m d))) = Some (update_fields kw st)"
    using f by (rule update_student_present)
  have "scores (update_fields kw st) = scores st"
    using ps add_scores_rejected [OF bad] by (simp add: update_fields_scores)
  with found have s: "\<exists>st'. find_student sid (fst (snd (update_student sid kw m d))) = Some st' \<and>
            scores st' = scores st"
    by blast
  have p: "snd (snd (update_student sid kw m d)) =
       snd (save_data (fst (snd (update_student sid kw m d))) d)"
    using f by (rule update_student_present)
  have w: "on_write d = Written \<longrightarrow>
        content (snd (snd (update_student sid kw m d))) =
          Doc (document (fst (snd (update_student sid kw m d))))"
    unfolding p by (simp add: save_data_def)
  from r e s p w show "fst (update_student sid kw m d) = True \<and>
     update_student sid kw m d = update_student sid (kw\<lparr>kw_scores := None\<rparr>) m d \<and>
     (\<exists>st'. find_student sid (fst (snd (update_student sid kw m d))) = Some st' \<and>
            scores st' = scores st) \<and>
     snd (snd (update_student sid kw m d)) =
       snd (save_data (fst (snd (update_student sid kw m d))) d) \<and>
     (on_write d = Written \<longrightarrow>
        content (snd (snd (update_student sid kw m d))) =
          Doc (document (fst (snd (update_student sid kw m d)))))"
    by blast
qed

lemma class_store_find:
  "find_student ''A1'' class_store = Some ann"
  "find_student ''A2'' class_store = Some bob"
  "find_student ''A3'' class_store = Some cy"
  "find_student ''A4'' class_store = None"
  by (simp_all add: find_student_def class_store_def)

lemma class_store_keys: "fst ` set (students class_store) = {''A1'', ''A2'', ''A3''}"
  by (simp add: class_store_def)

theorem add_student_contract_witness:
  "student_id bob \<in> set (map fst (students class_store)) \<and>
   add_student bob class_store blank_disk = (False, class_store, blank_disk) \<and>
   student_id dee \<notin> set (map fst (students class_store)) \<and>
   fst (add_student dee class_store blank_disk) = True \<and>
   find_student ''A4'' (fst (snd (add_student dee class_store blank_disk))) = Some dee \<and>
   find_student ''A2'' (fst (snd (add_student dee class_store blank_disk))) = Some bob"
proof -
  have b: "student_id bob \<in> set (map fst (students class_store))"
    by (simp add: class_store_keys bob_def)
  have i: "student_id dee = ''A4''"
    by (simp add: dee_def Student_def)
  have d: "student_id dee \<notin> set (map fst (students class_store))"
    by (simp add: class_store_keys i)
  have n: "''A2'' \<noteq> student_id dee"
    by (simp add: i)
  show ?thesis
    using b d n add_student_contract [of bob class_store blank_disk]
      add_student_contract [of dee class_store blank_disk]
    by (simp add: class_store_find i)
qed

theorem delete_student_contract_witness:
  "''A4'' \<notin> set (map fst (students class_store)) \<and>
   delete_student ''A4'' class_store blank_disk = (False, class_store, blank_disk) \<and>
   ''A2'' \<in> set (map fst (students class_store)) \<and>
   fst (delete_student ''A2'' class_store blank_disk) = True \<and>
   find_student ''A2'' (fst (snd (delete_student ''A2'' class_store blank_disk))) = None \<and>
   find_student ''A3'' (fst (snd (delete_student ''A2'' class_store blank_disk))) = Some cy"
proof -
  have a: "''A4'' \<notin> set (map fst (students class_store))"
    and p: "''A2'' \<in> set (map fst (students class_store))"
    by (simp_all add: class_store_keys)
  have n: "''A3'' \<noteq> ''A2''" by simp
  show ?thesis
    using a p n delete_student_contract [of "''A4''" class_store blank_disk]
      delete_student_contract [of "''A2''" class_store blank_disk]
    by (simp add: class_store_find)
qed

text \<open>
  Claim C9 at a scores mapping whose one value is the float NaN, which is invalid: it does
  not lie in [0,100]. The claim has the entry dropped and the scores left as they were.
  The code returns \<open>True\<close> and saves, as the claim says, but the entry is applied: the
  stored record reads NaN for the subject, in place of the mark 50 it had. The cause is
  the test of \<open>add_score\<close>, as for claim C5.
\<close>

theorem update_student_stores_nan:
  "kw_scores grade_nan = Some [(''math'', PFloat NaN)] \<and>
   is_number (PFloat NaN) \<and> \<not> in_range (PFloat NaN) \<and>
   find_student ''A2'' class_store = Some bob \<and>
   map_of (scores bob) ''math'' = Some (PInt 50) \<and>
   fst (update_student ''A2'' grade_nan class_store blank_disk) = True \<and>
   find_student ''A2'' (fst (snd (update_student ''A2'' grade_nan class_store blank_disk))) =
     Some (bob\<lparr>scores := [(''math'', PFloat NaN), (''art'', PFloat (Fin 60))]\<rparr>) \<and>
   content (snd (snd (update_student ''A2'' grade_nan class_store blank_disk))) =
     Doc (document (fst (snd (update_student ''A2'' grade_nan class_store blank_disk))))"
proof -
  have f: "find_student ''A2'' class_store = Some bob"
    by (rule class_store_find)
  have u: "update_fields grade_nan bob =
           bob\<lparr>scores := [(''math'', PFloat NaN), (''art'', PFloat (Fin 60))]\<rparr>"
    by (simp add: update_fields_def update_basic_def grade_nan_def add_score_def bob_def)
  have r: "fst (update_student ''A2'' grade_nan class_store blank_disk) = True"
    using f by (rule update_student_present)
  have g: "find_student ''A2'' (fst (snd (update_student ''A2'' grade_nan class_store blank_disk))) =
           Some (update_fields grade_nan bob)"
    using f by (rule update_student_present)
  have p: "snd (snd (update_student ''A2'' grade_nan class_store blank_disk)) =
           snd (save_data (fst (snd (update_student ''A2'' grade_nan class_store blank_disk)))
                  blank_disk)"
    using f by (rule update_student_present)
  have w: "content (snd (snd (update_student ''A2'' grade_nan class_store blank_disk))) =
           Doc (document (fst (snd (update_student ''A2'' grade_nan class_store blank_disk))))"
    unfolding p by (simp add: save_data_def blank_disk_def)
  have k: "kw_scores grade_nan = Some [(''math'', PFloat NaN)]"
    by (simp add: grade_nan_def)
  have n: "is_number (PFloat NaN) \<and> \<not> in_range (PFloat NaN)"
    by (simp add: in_range_def)
  have b: "map_of (scores bob) ''math'' = Some (PInt 50)"
    by (simp add: bob_def)
  from k n f b r g w show ?thesis
    by (simp only: u) simp
qed

theorem update_student_contract_witness:
  "find_student ''A4'' class_store = None \<and>
   update_student ''A4'' rename_and_grade class_store blank_disk = (False, class_store, blank_disk) \<and>
   find_student ''A2'' class_store = Some bob \<and>
   fst (update_student ''A2'' rename_and_grade class_store blank_disk) = True \<and>
   (\<exists>st'. find_student ''A2'' (fst (snd (update_student ''A2'' rename_and_grade class_store blank_disk)))
            = Some st' \<and>
      name st' = ''Rob'' \<and> age st' = 21 \<and> gender st' = ''M'' \<and>
      map_of (scores st') ''math'' = Some (PInt 80) \<and>
      map_of (scores st') ''music'' = Some (PInt 70) \<and>
      map_of (scores st') ''art'' = Some (PFloat (Fin 60)))"
proof -
  let ?m = "fst (snd (update_student ''A2'' rename_and_grade class_store blank_disk))"
  note absent = update_student_contract [where sid = "''A4''" and m = class_store
      and kw = rename_and_grade and d = blank_disk and st = bob]
  note present = update_student_contract [where sid = "''A2''" and m = class_store
      and kw = rename_and_grade and d = blank_disk and st = bob]
  have r1: "update_student ''A4'' rename_and_grade class_store blank_disk =
            (False, class_store, blank_disk)"
    using absent class_store_find(4) by blast
  have r2: "fst (update_student ''A2'' rename_and_grade class_store blank_disk) = True"
    using present class_store_find(2) by blast
  from present class_store_find(2) obtain st' where
    f: "find_student ''A2'' ?m = Some st'"
    and n: "name st' = (case kw_name rename_and_grade of Some n \<Rightarrow> n | None \<Rightarrow> name bob)"
    and a: "age st' = (case kw_age rename_and_grade of Some a \<Rightarrow> a | None \<Rightarrow> age bob)"
    and g: "gender st' = (case kw_gender rename_and_grade of Some g \<Rightarrow> g | None \<Rightarrow> gender bob)"
    and sc: "\<forall>ps. kw_scores rename_and_grade = Some ps \<longrightarrow>
              scores st' = scores (add_scores ps bob) \<and>
              (\<forall>k. k \<notin> fst ` set ps \<longrightarrow> map_of (scores st') k = map_of (scores bob) k) \<and>
              (distinct (map fst ps) \<longrightarrow>
                 (\<forall>(k, v) \<in> set ps.
                    (in_range v \<longrightarrow> map_of (scores st') k = Some v) \<and>
                    (\<not> is_number v \<or> out_of_range v \<longrightarrow>
                       map_of (scores st') k = map_of (scores bob) k)))"
    by blast
  have "kw_scores rename_and_grade = Some new_marks"
    by (simp add: rename_and_grade_def)
  moreover have "distinct (map fst new_marks)"
    by (simp add: new_marks_def)
  ultimately have each: "\<forall>(k, v) \<in> set new_marks.
                    (in_range v \<longrightarrow> map_of (scores st') k = Some v) \<and>
                    (\<not> is_number v \<or> out_of_range v \<longrightarrow>
                       map_of (scores st') k = map_of (scores bob) k)"
    using sc by blast
  have marks: "map_of (scores st') ''math'' = Some (PInt 80)"
    "map_of (scores st') ''music'' = Some (PInt 70)"
    "map_of (scores st') ''art'' = Some (PFloat (Fin 60))"
    using each by (simp_all add: new_marks_def in_range_def out_of_range_def bob_def)
  have fields: "name st' = ''Rob''" "age st' = 21" "gender st' = ''M''"
    using n a g by (simp_all add: rename_and_grade_def bob_def)
  from f fields marks have "\<exists>st'. find_student ''A2'' ?m = Some st' \<and>
      name st' = ''Rob'' \<and> age st' = 21 \<and> gender st' = ''M'' \<and>
      map_of (scores st') ''math'' = Some (PInt 80) \<and>
      map_of (scores st') ''music'' = Some (PInt 70) \<and>
      map_of (scores st') ''art'' = Some (PFloat (Fin 60))"
    by blast
  with r1 r2 class_store_find(2,4) show ?thesis by blast
qed

section \<open>Properties of the statistics\<close>













section \<open>A record without scores\<close>













section \<open>The score range as an invariant\<close>

lemma accepted_in_range:
  assumes "num_of v = Some x" "\<not> num_less x (Fin 0)" "\<not> num_less (Fin 100) x" "x \<noteq> NaN"
  shows "in_range v"
  using assms by (cases x) (auto simp: in_range_def)

lemma set_update_subset: "set (AList.update k v xs) \<subseteq> insert (k, v) (set xs)"
  by (induction xs) auto

lemma add_score_keeps_range:
  assumes "not_nan v" "scores_in_range st"
  shows "scores_in_range (snd (add_score k v st))"
proof (cases "fst (add_score k v st)")
  case False
  then have "snd (add_score k v st) = st"
    by (auto simp: add_score_def split: option.splits if_splits)
  with assms(2) show ?thesis by simp
next
  case True
  then obtain x where x: "num_of v = Some x" "\<not> num_less x (Fin 0)" "\<not> num_less (Fin 100) x"
    by (auto simp: add_score_def split: option.splits if_splits)
  with assms(1) have v: "in_range v"
    by (auto simp: not_nan_def intro: accepted_in_range)
  from x have "scores (snd (add_score k v st)) = AList.update k v (scores st)"
    by (simp add: add_score_def)
  with v assms(2) set_update_subset [of k v "scores st"] show ?thesis
    by (auto simp: scores_in_range_def list_all_iff)
qed

lemma add_scores_keeps_range:
  "list_all (\<lambda>(subject, v). not_nan v) ps \<Longrightarrow> scores_in_range st \<Longrightarrow>
   scores_in_range (add_scores ps st)"
  by (induction ps st rule: add_scores.induct) (simp_all add: add_score_keeps_range)

lemma update_fields_keeps_range:
  assumes "clean_operation (Update sid kw)" "scores_in_range st"
  shows "scores_in_range (update_fields kw st)"
proof (cases "kw_scores kw")
  case None
  with assms(2) show ?thesis
    by (simp add: scores_in_range_def update_fields_scores)
next
  case (Some ps)
  with assms have "scores_in_range (add_scores ps st)"
    by (simp add: add_scores_keeps_range)
  with Some show ?thesis
    by (simp add: scores_in_range_def update_fields_scores)
qed

lemma store_update_in_range:
  "scores_in_range st \<Longrightarrow> store_in_range m \<Longrightarrow>
   store_in_range (m\<lparr>students := AList.update sid st (students m)\<rparr>)"
  using set_update_subset [of sid st "students m"]
  by (auto simp: store_in_range_def list_all_iff)

lemma store_delete_in_range:
  "store_in_range m \<Longrightarrow> store_in_range (m\<lparr>students := AList.delete sid (students m)\<rparr>)"
  by (auto simp: store_in_range_def list_all_iff AList.delete_eq)

lemma store_lookup_in_range:
  "store_in_range m \<Longrightarrow> map_of (students m) sid = Some st \<Longrightarrow> scores_in_range st"
  by (auto simp: store_in_range_def list_all_iff dest: map_of_SomeD)

lemma typed_student_scores:
  "typed_student sid nm ag gd sc t = Returns st \<Longrightarrow> sc = PDict (scores st)"
  by (cases sc) (auto simp: typed_student_def split: option.splits Option.bind_splits)

lemma from_dict_to_dict_scores:
  assumes "from_dict other (to_dict st) = Returns st'"
  shows "scores st' = scores st"
proof -
  from assms obtain t where
    "typed_student (PStr (student_id st)) (PStr (name st)) (PInt (age st)) (PStr (gender st))
       (PDict (scores st)) t = Returns st'"
    by (auto simp: from_dict_def to_dict_def getitem_def get_default_def or_raise_def
        split: sum.splits)
  from typed_student_scores [OF this] show ?thesis by simp
qed

lemma from_dict_items_in_range:
  "from_dict_items other (map (\<lambda>(sid, st). (sid, to_dict st)) xs) = Returns kvs \<Longrightarrow>
   list_all (\<lambda>(sid, st). scores_in_range st) xs \<Longrightarrow>
   list_all (\<lambda>(sid, st). scores_in_range st) kvs"
proof (induction xs arbitrary: kvs)
  case Nil
  then show ?case by simp
next
  case (Cons p xs)
  obtain sid st where p: "p = (sid, st)" by (cases p)
  from Cons.prems(1) p obtain st' rest where
    st': "from_dict other (to_dict st) = Returns st'"
    and rest: "from_dict_items other (map (\<lambda>(sid, st). (sid, to_dict st)) xs) = Returns rest"
    and kvs: "kvs = (sid, st') # rest"
    by (auto split: outcome.splits)
  from Cons.prems(2) p have "scores_in_range st" and "list_all (\<lambda>(sid, st). scores_in_range st) xs"
    by simp_all
  with Cons.IH [OF rest] from_dict_to_dict_scores [OF st'] kvs show ?case
    by (simp add: scores_in_range_def)
qed

lemma save_data_in_range:
  assumes "store_in_range m" "disk_in_range other d"
  shows "disk_in_range other (snd (save_data m d))"
proof (cases "on_write d")
  case Written
  have "load_students other (document m) = Returns kvs \<Longrightarrow>
        list_all (\<lambda>(sid, st). scores_in_range st) kvs" for kvs
    using assms(1) from_dict_items_in_range [of other "students m" kvs]
    by (simp add: load_students_def document_def get_default_def store_in_range_def)
  with Written show ?thesis
    by (auto simp: save_data_def disk_in_range_def split: outcome.splits)
next
  case OpenFails
  with assms(2) show ?thesis by (simp add: save_data_def)
next
  case WriteFails
  then show ?thesis by (simp add: save_data_def disk_in_range_def)
qed

lemma load_data_in_range:
  assumes "store_in_range m" "disk_in_range other d" "load_data other m d = Some (ok, m')"
  shows "store_in_range m'"
  using assms
  by (auto simp: load_data_def disk_in_range_def store_in_range_def
      split: backing_file.splits outcome.splits)

lemma add_student_in_range:
  assumes "scores_in_range st" "store_in_range m" "disk_in_range other d"
  shows "store_in_range (fst (snd (add_student st m d)))"
    and "disk_in_range other (snd (snd (add_student st m d)))"
  using assms
  by (simp_all add: add_student_def Let_def store_update_in_range save_data_in_range)

lemma delete_student_in_range:
  assumes "store_in_range m" "disk_in_range other d"
  shows "store_in_range (fst (snd (delete_student sid m d)))"
    and "disk_in_range other (snd (snd (delete_student sid m d)))"
  using assms
  by (simp_all add: delete_student_def Let_def store_delete_in_range save_data_in_range)

lemma update_student_in_range:
  assumes "clean_operation (Update sid kw)" "store_in_range m" "disk_in_range other d"
  shows "store_in_range (fst (snd (update_student sid kw m d)))"
    and "disk_in_range other (snd (snd (update_student sid kw m d)))"
proof -
  show "store_in_range (fst (snd (update_student sid kw m d)))"
  proof (cases "map_of (students m) sid")
    case None
    with assms(2) show ?thesis by (simp add: update_student_def)
  next
    case (Some st)
    from assms(2) Some have "scores_in_range st" by (rule store_lookup_in_range)
    with assms(1) have "scores_in_range (update_fields kw st)"
      by (rule update_fields_keeps_range)
    with Some assms(2) show ?thesis
      by (simp add: update_student_def Let_def store_update_in_range)
  qed
  then show "disk_in_range other (snd (snd (update_student sid kw m d)))"
    using assms(3)
    by (cases "map_of (students m) sid")
      (simp_all add: update_student_def Let_def save_data_in_range)
qed

lemma add_score_ui_in_range:
  assumes "score \<noteq> NaN" "store_in_range m" "disk_in_range other d"
  shows "store_in_range (fst (add_score_ui sid subject score m d))"
    and "disk_in_range other (snd (add_score_ui sid subject score m d))"
proof -
  have both: "store_in_range (fst (add_score_ui sid subject score m d)) \<and>
              disk_in_range other (snd (add_score_ui sid subject score m d))"
  proof (cases "find_student sid m")
    case None
    with assms show ?thesis by (simp add: add_score_ui_def)
  next
    case (Some st)
    then have "scores_in_range st"
      using assms(2) by (simp add: find_student_def store_lookup_in_range)
    moreover have "not_nan (PFloat score)"
      using assms(1) by (simp add: not_nan_def)
    ultimately have r: "scores_in_range (snd (add_score subject (PFloat score) st))"
      by (simp add: add_score_keeps_range)
    obtain ok st' where a: "add_score subject (PFloat score) st = (ok, st')"
      by (cases "add_score subject (PFloat score) st")
    with r have "scores_in_range st'" by simp
    then have "store_in_range (m\<lparr>students := AList.update sid st' (students m)\<rparr>)"
      using assms(2) by (rule store_update_in_range)
    with Some a assms show ?thesis
      by (cases ok) (simp_all add: add_score_ui_def Let_def save_data_in_range)
  qed
  from both show "store_in_range (fst (add_score_ui sid subject score m d))"
    and "disk_in_range other (snd (add_score_ui sid subject score m d))"
    by simp_all
qed

lemma step_in_range:
  assumes "clean_operation op" "store_in_range m" "disk_in_range other d"
    and "step other op (m, d) = Some (m', d')"
  shows "store_in_range m' \<and> disk_in_range other d'"
proof (cases op)
  case (Add st)
  with assms add_student_in_range [of st m other d] show ?thesis by auto
next
  case (Delete sid)
  with assms delete_student_in_range [of m other d sid] show ?thesis by auto
next
  case (Update sid kw)
  with assms update_student_in_range [of sid kw m other d] show ?thesis by auto
next
  case (InsertScore sid subject score)
  with assms add_score_ui_in_range [of score m other d sid subject] show ?thesis by auto
next
  case Load
  with assms(4) obtain ok where "load_data other m d = Some (ok, m')" and "d' = d"
    by (auto split: option.splits)
  with assms(2,3) load_data_in_range [of m other d ok m'] show ?thesis by simp
qed

lemma run_in_range:
  "list_all clean_operation ops \<Longrightarrow> store_in_range m \<Longrightarrow> disk_in_range other d \<Longrightarrow>
   run other ops (m, d) = Some (m', d') \<Longrightarrow> store_in_range m' \<and> disk_in_range other d'"
proof (induction ops arbitrary: m d)
  case Nil
  then show ?case by simp
next
  case (Cons op ops)
  from Cons.prems(4) obtain m1 d1 where
    s: "step other op (m, d) = Some (m1, d1)" and r: "run other ops (m1, d1) = Some (m', d')"
    by (auto split: option.splits)
  from Cons.prems(1) have c: "clean_operation op" and cs: "list_all clean_operation ops"
    by simp_all
  from step_in_range [OF c Cons.prems(2,3) s]
  have m1: "store_in_range m1" and d1: "disk_in_range other d1" by simp_all
  from cs m1 d1 r show ?case by (rule Cons.IH)
qed

lemma run_without_load:
  "Load \<notin> set ops \<Longrightarrow> \<exists>s'. run other ops s = Some s'"
proof (induction ops arbitrary: s)
  case Nil
  then show ?case by simp
next
  case (Cons op ops)
  obtain m d where s: "s = (m, d)" by (cases s)
  from Cons.prems have "op \<noteq> Load" by auto
  then obtain s1 where "step other op (m, d) = Some s1"
    by (cases op) simp_all
  moreover from Cons have "\<exists>s'. run other ops s1 = Some s'" by simp
  ultimately show ?case using s by simp
qed

text \<open>
  Claim C4, as the code has it. Start from a store whose scores all lie in [0,100] and a
  backing file that either does not load or holds only such scores (any file that
  \<open>save_data\<close> wrote from such a store is one). Then every sequence of additions of
  records whose scores lie in [0,100], deletions, updates and score insertions that hand
  no NaN to \<open>add_score\<close>, and loads, ends in a store whose scores all lie in [0,100],
  with a backing file of the same kind. A sequence without a load always runs to its
  end. \<open>load_data\<close> and \<open>from_dict\<close> themselves check no score; the invariant comes
  from what was written.
\<close>

theorem score_range_invariant:
  "(store_in_range m \<and> disk_in_range other d \<and> list_all clean_operation ops \<and>
      run other ops (m, d) = Some (m', d')
      \<longrightarrow> store_in_range m' \<and> disk_in_range other d')
   \<and> (Load \<notin> set ops \<longrightarrow> (\<exists>s'. run other ops (m, d) = Some s'))"
  using run_in_range [of ops m other d m' d'] run_without_load [of ops other "(m, d)"]
  by blast

text \<open>
  Claim C4, as stated, fails: loading restores whatever scores the document holds. From
  the empty store, whose scores trivially lie in [0,100], a load of a backing file whose
  one record has the score 150 succeeds and leaves that score in the store.
\<close>

theorem load_restores_out_of_range_score:
  "store_in_range empty_store \<and>
   run strict [Load] (empty_store, edited_disk) =
     Some (empty_store\<lparr>students := [(''A1'', ann_150)]\<rparr>, edited_disk) \<and>
   \<not> store_in_range (empty_store\<lparr>students := [(''A1'', ann_150)]\<rparr>)"
proof -
  have t: "parse_canonical ''2024-02-29T13:05:09'' = Some (leap_day\<lparr>microsecond := 0\<rparr>)"
    by (simp add: parse_canonical_def parse_fraction_def digit_of_def leap_day_def
        numeral_eq_Suc)
  have v: "valid_datetime (leap_day\<lparr>microsecond := 0\<rparr>)"
    by (simp add: valid_datetime_def leap_day_def days_in_month_def leap_year_def)
  have l: "load_data strict empty_store edited_disk =
           Some (True, empty_store\<lparr>students := [(''A1'', ann_150)]\<rparr>)"
    using t v
    by (simp add: load_data_def edited_disk_def load_students_def get_default_def
        from_dict_def getitem_def or_raise_def fromisoformat_def typed_student_def ann_150_def)
  have s: "store_in_range empty_store"
    by (simp add: store_in_range_def empty_store_def)
  have n: "\<not> store_in_range (empty_store\<lparr>students := [(''A1'', ann_150)]\<rparr>)"
    by (simp add: store_in_range_def scores_in_range_def in_range_def ann_150_def)
  from l s n show ?thesis by simp
qed

lemma session_runs: "run strict session (class_store, blank_disk) \<noteq> None"
proof -
  let ?dee = "dee\<lparr>scores := [(''math'', PFloat (Fin 88))]\<rparr>"
  let ?m = "\<lparr>data_file = ''students_data.json'',
            students = [(''A1'', ann), (''A2'', bob), (''A4'', ?dee)]\<rparr>"
  let ?d = "\<lparr>content = Doc (document ?m), on_write = Written\<rparr>"
  have i: "student_id dee = ''A4''" "scores dee = []"
    by (simp_all add: dee_def Student_def)
  have s1: "step strict (Add dee) (class_store, blank_disk) =
            Some (class_store\<lparr>students := students class_store @ [(''A4'', dee)]\<rparr>,
                  \<lparr>content = Doc (document (class_store\<lparr>students := students class_store @ [(''A4'', dee)]\<rparr>)),
                   on_write = Written\<rparr>)"
    by (simp add: add_student_def Let_def i class_store_def save_data_def blank_disk_def)
  have s2: "step strict (InsertScore ''A4'' ''math'' (Fin 88))
              (class_store\<lparr>students := students class_store @ [(''A4'', dee)]\<rparr>,
               \<lparr>content = Doc (document (class_store\<lparr>students := students class_store @ [(''A4'', dee)]\<rparr>)),
                on_write = Written\<rparr>) =
            Some (class_store\<lparr>students := students class_store @ [(''A4'', ?dee)]\<rparr>,
                  \<lparr>content = Doc (document (class_store\<lparr>students := students class_store @ [(''A4'', ?dee)]\<rparr>)),
                   on_write = Written\<rparr>)"
    by (simp add: add_score_ui_def Let_def find_student_def class_store_def add_score_def i
        save_data_def)
  have s3: "step strict (Delete ''A3'')
              (class_store\<lparr>students := students class_store @ [(''A4'', ?dee)]\<rparr>,
               \<lparr>content = Doc (document (class_store\<lparr>students := students class_store @ [(''A4'', ?dee)]\<rparr>)),
                on_write = Written\<rparr>) = Some (?m, ?d)"
    by (simp add: delete_student_def Let_def class_store_def save_data_def AList.delete_eq)
  have t: "valid_datetime leap_day" "valid_datetime (leap_day\<lparr>microsecond := 0\<rparr>)"
    by (simp_all add: valid_datetime_def leap_day_def days_in_month_def leap_year_def)
  have "list_all (\<lambda>(sid, st). valid_datetime (create_time st)) (students ?m)"
    using t by (simp add: ann_def bob_def dee_def Student_def)
  then have "load_students strict (document ?m) = Returns (students ?m)"
    by (rule load_students_document)
  then have s4: "step strict Load (?m, ?d) = Some (?m, ?d)"
    by (simp add: load_data_def)
  show ?thesis
    unfolding session_def by (simp only: run.simps s1 s2 s3 s4 option.case) simp
qed

theorem score_range_invariant_witness:
  "store_in_range class_store \<and> disk_in_range strict blank_disk \<and>
   list_all clean_operation session \<and>
   (\<exists>m' d'. run strict session (class_store, blank_disk) = Some (m', d') \<and>
      store_in_range m' \<and> disk_in_range strict d')"
proof -
  have s: "store_in_range class_store"
    by (simp add: store_in_range_def class_store_def scores_in_range_def in_range_def
        ann_def bob_def cy_def)
  have d: "disk_in_range strict blank_disk"
    by (simp add: disk_in_range_def blank_disk_def)
  have c: "list_all clean_operation session"
    by (simp add: session_def scores_in_range_def dee_def Student_def)
  from session_runs obtain m' d' where
    r: "run strict session (class_store, blank_disk) = Some (m', d')"
    by (cases "run strict session (class_store, blank_disk)") auto
  with s d c score_range_invariant [of class_store strict blank_disk session m' d']
  show ?thesis by blast
qed

end
